theory Spec2Isabelle
  imports Main
begin

section \<open>Tokens, JSON bodies and responses\<close>

text \<open>
  The payload of a token as \<open>flask_jwt_extended\<close> (4.x, the version whose
  \<open>jwt_required(refresh=True)\<close> the source calls) encodes it: \<open>fresh\<close>, \<open>iat\<close>,
  \<open>jti\<close>, \<open>type\<close>, \<open>sub\<close> (the identity), \<open>nbf\<close> and \<open>exp\<close>. Times are Unix
  seconds, Python's unbounded integers.
\<close>

datatype token_type = Access | Refresh

record claims =
  fresh :: bool
  iat :: int
  jti :: string
  token_type :: token_type
  sub :: int
  nbf :: int
  exp :: int

text \<open>
  An encoded token is the payload together with the key its HMAC signature was made
  with: the signature is taken to be unforgeable, so a token verifies under a key
  exactly when it was signed with that key.
\<close>

datatype token = Jws (signing_key: string) (payload: claims)

text \<open>
  What a request carries as credentials: no \<open>Authorization\<close> header, a header that
  is not of the form \<open>Bearer <token>\<close>, a bearer string that does not decode as a
  token, or a bearer token.
\<close>

datatype authorization = NoHeader | BadHeader | Garbage | Bearer token

datatype json = JInt int | JStr string | JTok token

type_synonym body = "(string \<times> json) list"

record response =
  status :: nat
  body :: body

text \<open>
  Everything the source raises. \<open>Abort\<close> is \<open>flask_smorest.abort(code, message=...)\<close>
  (also what \<open>get_or_404\<close> raises, with no message); the next seven are the errors of
  \<open>jwt_required\<close>; \<open>IntegrityError\<close> and \<open>DataError\<close> are the storage engine's at
  commit; \<open>ValueError\<close> is passlib's on a stored string that is not a hash.
\<close>

datatype exn =
    Abort nat "string option"
  | NoAuthorizationError
  | InvalidHeaderError
  | DecodeError
  | ImmatureSignatureError
  | ExpiredSignatureError
  | WrongTokenError
  | RevokedTokenError
  | IntegrityError
  | DataError
  | ValueError

section \<open>The world outside the program\<close>

text \<open>
  The clock, the \<open>uuid4()\<close> draws of one request (the k-th draw is \<open>uuid4 e k\<close>), and
  passlib's \<open>pbkdf2_sha256\<close>: \<open>hash\<close> with the salt this request draws, and \<open>verify\<close>,
  which answers \<open>None\<close> where the library raises \<open>ValueError\<close> (the stored string is
  not a \<open>pbkdf2_sha256\<close> hash).
\<close>

record env =
  now :: int
  uuid4 :: "nat \<Rightarrow> string"
  pbkdf2_sha256_hash :: "string \<Rightarrow> string"
  pbkdf2_sha256_verify :: "string \<Rightarrow> string \<Rightarrow> bool option"

section \<open>The user store (models.py, db.py)\<close>

record UserModel =
  user_id :: int
  username :: string
  password :: string

text \<open>
  The \<open>users\<close> table: its rows in storage order and the sequence behind the
  auto-assigned primary key.
\<close>

record database =
  users :: "UserModel list"
  users_id_seq :: int

text \<open>
  Modelled from the spec: models.py (the columns of \<open>UserModel\<close>) is not among the
  sources. The spec gives \<open>username\<close> as text of at most 80 characters, unique and
  required, and \<open>password\<close> as text of at most 200 characters (the width the
  migration sets); the application's connection string names PostgreSQL, which
  rejects an over-long value for a \<open>VARCHAR(n)\<close> column instead of truncating it.
\<close>

definition username_length :: nat where
  "username_length = 80"

definition password_length :: nat where
  "password_length = 200"

text \<open>\<open>UserModel.query.filter(UserModel.username == name).first()\<close>\<close>

definition query_filter_username_first :: "database \<Rightarrow> string \<Rightarrow> UserModel option" where
  "query_filter_username_first d name = find (\<lambda>u. username u = name) (users d)"

text \<open>\<open>UserModel.query.get_or_404(ident)\<close>: the row with that primary key, or \<open>abort(404)\<close>.\<close>

definition query_get_or_404 :: "database \<Rightarrow> int \<Rightarrow> exn + UserModel" where
  "query_get_or_404 d ident =
     (case find (\<lambda>u. user_id u = ident) (users d) of
        None \<Rightarrow> Inl (Abort 404 None)
      | Some u \<Rightarrow> Inr u)"

text \<open>
  \<open>db.session.add(user); db.session.commit()\<close> for a new user: the engine checks the
  column widths, assigns the next value of the sequence as the id and checks the
  uniqueness of the username. A failed transaction leaves the rows as they were; the
  sequence value drawn before a uniqueness violation is not given back.
\<close>

definition session_add_commit :: "database \<Rightarrow> string \<Rightarrow> string \<Rightarrow> (exn + unit) \<times> database" where
  "session_add_commit d name pw =
     (if username_length < length name \<or> password_length < length pw then (Inl DataError, d)
      else if name \<in> set (map username (users d))
        then (Inl IntegrityError, d\<lparr>users_id_seq := users_id_seq d + 1\<rparr>)
      else (Inr (),
            \<lparr>users = users d @ [\<lparr>user_id = users_id_seq d, username = name, password = pw\<rparr>],
             users_id_seq = users_id_seq d + 1\<rparr>))"

text \<open>\<open>db.session.delete(user); db.session.commit()\<close>: the row with the user's primary key goes.\<close>

definition session_delete_commit :: "database \<Rightarrow> UserModel \<Rightarrow> database" where
  "session_delete_commit d u = d\<lparr>users := filter (\<lambda>r. user_id r \<noteq> user_id u) (users d)\<rparr>"

section \<open>The validation schema (schemas.py)\<close>

text \<open>
  Modelled from the spec: schemas.py (\<open>UserSchema\<close>) is not among the sources. The
  spec gives three fields: \<open>id\<close>, an integer that is output-only; \<open>username\<close>, text,
  required on input and included on output; \<open>password\<close>, text, required on input and
  write-only (never part of an output).
\<close>

record field =
  field_name :: string
  dump_only :: bool
  load_only :: bool
  required :: bool
  field_value :: "UserModel \<Rightarrow> json"

definition UserSchema :: "field list" where
  "UserSchema =
     [\<lparr>field_name = ''id'', dump_only = True, load_only = False, required = False,
        field_value = (\<lambda>u. JInt (user_id u))\<rparr>,
      \<lparr>field_name = ''username'', dump_only = False, load_only = False, required = True,
        field_value = (\<lambda>u. JStr (username u))\<rparr>,
      \<lparr>field_name = ''password'', dump_only = False, load_only = True, required = True,
        field_value = (\<lambda>u. JStr (password u))\<rparr>]"

text \<open>Serialising an object through a schema: every field that is not load-only, in order.\<close>

definition dump :: "field list \<Rightarrow> UserModel \<Rightarrow> body" where
  "dump schema u = map (\<lambda>f. (field_name f, field_value f u)) (filter (\<lambda>f. \<not> load_only f) schema)"

text \<open>
  A register or login body after \<open>@blp.arguments(UserSchema)\<close> has loaded it: both
  required fields are present and are strings, so \<open>user_data["username"]\<close> and
  \<open>user_data["password"]\<close> cannot fail.
\<close>

record user_data =
  data_username :: string
  data_password :: string

section \<open>The state of the process\<close>

text \<open>
  Modelled from the spec: blocklist.py (\<open>BLOCKLIST\<close>) is not among the sources. The
  spec gives the Revocation Registry as an in-memory set of token identifiers whose
  \<open>add\<close> inserts an identifier, returns nothing and has no error condition.
\<close>

record app_state =
  db :: database
  BLOCKLIST :: "string set"

definition BLOCKLIST_add :: "string \<Rightarrow> app_state \<Rightarrow> app_state" where
  "BLOCKLIST_add j s = s\<lparr>BLOCKLIST := insert j (BLOCKLIST s)\<rparr>"

definition initial_state :: app_state where
  "initial_state = \<lparr>db = \<lparr>users = [], users_id_seq = 1\<rparr>, BLOCKLIST = {}\<rparr>"

section \<open>Issuing and checking tokens (flask_jwt_extended)\<close>

text \<open>\<open>app.config["JWT_SECRET_KEY"] = "jose"\<close>; the lifetimes are the library's defaults.\<close>

definition JWT_SECRET_KEY :: string where
  "JWT_SECRET_KEY = ''jose''"

definition JWT_ACCESS_TOKEN_EXPIRES :: int where
  "JWT_ACCESS_TOKEN_EXPIRES = 15 * 60"

definition JWT_REFRESH_TOKEN_EXPIRES :: int where
  "JWT_REFRESH_TOKEN_EXPIRES = 30 * 24 * 60 * 60"

definition encode_jwt :: "env \<Rightarrow> nat \<Rightarrow> int \<Rightarrow> bool \<Rightarrow> token_type \<Rightarrow> int \<Rightarrow> token" where
  "encode_jwt e k identity fr ty lifetime =
     Jws JWT_SECRET_KEY
       \<lparr>fresh = fr, iat = now e, jti = uuid4 e k, token_type = ty, sub = identity,
        nbf = now e, exp = now e + lifetime\<rparr>"

text \<open>\<open>k\<close> says which \<open>uuid4()\<close> draw of the request names the token.\<close>

definition create_access_token :: "env \<Rightarrow> nat \<Rightarrow> int \<Rightarrow> bool \<Rightarrow> token" where
  "create_access_token e k identity fr = encode_jwt e k identity fr Access JWT_ACCESS_TOKEN_EXPIRES"

definition create_refresh_token :: "env \<Rightarrow> nat \<Rightarrow> int \<Rightarrow> token" where
  "create_refresh_token e k identity = encode_jwt e k identity False Refresh JWT_REFRESH_TOKEN_EXPIRES"

text \<open>Decoding checks the signature first, then the times (not yet valid, then expired).\<close>

definition decode_token :: "int \<Rightarrow> token \<Rightarrow> exn + claims" where
  "decode_token t tok =
     (if signing_key tok \<noteq> JWT_SECRET_KEY then Inl DecodeError
      else if t < iat (payload tok) \<or> t < nbf (payload tok) then Inl ImmatureSignatureError
      else if exp (payload tok) \<le> t then Inl ExpiredSignatureError
      else Inr (payload tok))"

text \<open>
  src/app.py, \<open>@jwt.token_in_blocklist_loader\<close>:
  \<open>return jwt_payload["jti"] in BLOCKLIST\<close>.
\<close>

definition check_if_token_in_blocklist :: "app_state \<Rightarrow> claims \<Rightarrow> bool" where
  "check_if_token_in_blocklist s jwt_payload \<longleftrightarrow> jti jwt_payload \<in> BLOCKLIST s"

text \<open>
  \<open>verify_token_type\<close>: a route declared with \<open>jwt_required()\<close> refuses a refresh
  token, one declared with \<open>jwt_required(refresh=True)\<close> refuses anything else.
\<close>

definition verify_token_type :: "claims \<Rightarrow> bool \<Rightarrow> exn + unit" where
  "verify_token_type decoded_token refresh =
     (if \<not> refresh \<and> token_type decoded_token = Refresh then Inl WrongTokenError
      else if refresh \<and> token_type decoded_token \<noteq> Refresh then Inl WrongTokenError
      else Inr ())"

text \<open>
  The decorator \<open>@jwt_required(refresh=...)\<close>: find the token, decode it, check its
  type, then ask the blocklist loader. No user lookup is configured in src/app.py, so
  the user store is never read.
\<close>

definition jwt_required :: "bool \<Rightarrow> env \<Rightarrow> authorization \<Rightarrow> app_state \<Rightarrow> exn + claims" where
  "jwt_required refresh e a s =
     (case a of
        NoHeader \<Rightarrow> Inl NoAuthorizationError
      | BadHeader \<Rightarrow> Inl InvalidHeaderError
      | Garbage \<Rightarrow> Inl DecodeError
      | Bearer tok \<Rightarrow>
          (case decode_token (now e) tok of
             Inl x \<Rightarrow> Inl x
           | Inr decoded_token \<Rightarrow>
               (case verify_token_type decoded_token refresh of
                  Inl x \<Rightarrow> Inl x
                | Inr _ \<Rightarrow>
                    if check_if_token_in_blocklist s decoded_token then Inl RevokedTokenError
                    else Inr decoded_token)))"

section \<open>Error responses (src/app.py)\<close>

definition expired_token_callback :: response where
  "expired_token_callback =
     \<lparr>status = 401,
      body = [(''message'', JStr ''The token has expired.''), (''error'', JStr ''token_expired'')]\<rparr>"

definition invalid_token_callback :: response where
  "invalid_token_callback =
     \<lparr>status = 401,
      body = [(''message'', JStr ''Signature verification failed.''),
              (''error'', JStr ''invalid_token'')]\<rparr>"

definition missing_token_callback :: response where
  "missing_token_callback =
     \<lparr>status = 401,
      body = [(''description'', JStr ''Request does not contain an access token.''),
              (''error'', JStr ''authorization_required'')]\<rparr>"

definition token_not_fresh_callback :: response where
  "token_not_fresh_callback =
     \<lparr>status = 401,
      body = [(''description'', JStr ''The token is not fresh.''),
              (''error'', JStr ''fresh_token_required'')]\<rparr>"

definition revoked_token_callback :: response where
  "revoked_token_callback =
     \<lparr>status = 401,
      body = [(''description'', JStr ''The token has been revoked.''),
              (''error'', JStr ''token_revoked'')]\<rparr>"

definition status_name :: "nat \<Rightarrow> string" where
  "status_name code =
     (if code = 401 then ''Unauthorized''
      else if code = 404 then ''Not Found''
      else if code = 409 then ''Conflict''
      else if code = 500 then ''Internal Server Error''
      else ''Unknown Error'')"

text \<open>The JSON body flask_smorest gives an HTTP error: code, status name and the message, if any.\<close>

definition http_error :: "nat \<Rightarrow> string option \<Rightarrow> response" where
  "http_error code msg =
     \<lparr>status = code,
      body = [(''code'', JInt (int code)), (''status'', JStr (status_name code))]
             @ (case msg of None \<Rightarrow> [] | Some m \<Rightarrow> [(''message'', JStr m)])\<rparr>"

text \<open>
  What the framework makes of an exception that leaves a view: an abort becomes its
  HTTP error; the token errors go to the callbacks \<open>JWTManager\<close> registers them for
  (a bad header, an undecodable, not yet valid or wrongly typed token all go to
  \<open>invalid_token_callback\<close>); anything else is an unhandled exception, a 500.
\<close>

fun handle_exception :: "exn \<Rightarrow> response" where
  "handle_exception (Abort code msg) = http_error code msg"
| "handle_exception NoAuthorizationError = missing_token_callback"
| "handle_exception InvalidHeaderError = invalid_token_callback"
| "handle_exception DecodeError = invalid_token_callback"
| "handle_exception ImmatureSignatureError = invalid_token_callback"
| "handle_exception ExpiredSignatureError = expired_token_callback"
| "handle_exception WrongTokenError = invalid_token_callback"
| "handle_exception RevokedTokenError = revoked_token_callback"
| "handle_exception IntegrityError = http_error 500 None"
| "handle_exception DataError = http_error 500 None"
| "handle_exception ValueError = http_error 500 None"

section \<open>The user resource (src/resources/user.py)\<close>

text \<open>A view returns its response or raises, and leaves the state of the process behind.\<close>

type_synonym view_result = "(exn + response) \<times> app_state"

text \<open>
  Lines 54 to 61 of the view, what it does once the check of line 51 has let the
  request through: build the user with the hashed password, add, commit, answer 201.
  Nothing here catches what the commit raises. The store these lines write to is the
  one the check read unless another request committed in between.
\<close>

definition UserRegister_post_insert :: "env \<Rightarrow> user_data \<Rightarrow> app_state \<Rightarrow> view_result" where
  "UserRegister_post_insert e ud s =
     (case session_add_commit (db s) (data_username ud)
             (pbkdf2_sha256_hash e (data_password ud)) of
        (Inl x, d) \<Rightarrow> (Inl x, s\<lparr>db := d\<rparr>)
      | (Inr _, d) \<Rightarrow>
          (Inr \<lparr>status = 201, body = [(''message'', JStr ''User created successfully.'')]\<rparr>,
           s\<lparr>db := d\<rparr>))"

definition UserRegister_post :: "env \<Rightarrow> user_data \<Rightarrow> app_state \<Rightarrow> view_result" where
  "UserRegister_post e ud s =
     (if query_filter_username_first (db s) (data_username ud) \<noteq> None
      then (Inl (Abort 409 (Some ''A user with that username already exists.'')), s)
      else UserRegister_post_insert e ud s)"

definition UserLogin_post :: "env \<Rightarrow> user_data \<Rightarrow> app_state \<Rightarrow> view_result" where
  "UserLogin_post e ud s =
     (case query_filter_username_first (db s) (data_username ud) of
        None \<Rightarrow> (Inl (Abort 401 (Some ''Invalid credentials.'')), s)
      | Some user \<Rightarrow>
          (case pbkdf2_sha256_verify e (data_password ud) (password user) of
             None \<Rightarrow> (Inl ValueError, s)
           | Some False \<Rightarrow> (Inl (Abort 401 (Some ''Invalid credentials.'')), s)
           | Some True \<Rightarrow>
               (Inr \<lparr>status = 200,
                     body = [(''access_token'', JTok (create_access_token e 0 (user_id user) True)),
                             (''refresh_token'', JTok (create_refresh_token e 1 (user_id user)))]\<rparr>,
                s)))"

definition UserLogout_post :: "env \<Rightarrow> authorization \<Rightarrow> app_state \<Rightarrow> view_result" where
  "UserLogout_post e a s =
     (case jwt_required False e a s of
        Inl x \<Rightarrow> (Inl x, s)
      | Inr jwt \<Rightarrow>
          (Inr \<lparr>status = 200, body = [(''message'', JStr ''Successfully logged out'')]\<rparr>,
           BLOCKLIST_add (jti jwt) s))"

text \<open>\<open>@blp.response(200, UserSchema)\<close> serialises the user the view returns.\<close>

definition User_get :: "int \<Rightarrow> app_state \<Rightarrow> view_result" where
  "User_get ident s =
     (case query_get_or_404 (db s) ident of
        Inl x \<Rightarrow> (Inl x, s)
      | Inr user \<Rightarrow> (Inr \<lparr>status = 200, body = dump UserSchema user\<rparr>, s))"

definition User_delete :: "int \<Rightarrow> app_state \<Rightarrow> view_result" where
  "User_delete ident s =
     (case query_get_or_404 (db s) ident of
        Inl x \<Rightarrow> (Inl x, s)
      | Inr user \<Rightarrow>
          (Inr \<lparr>status = 200, body = [(''message'', JStr ''User deleted.'')]\<rparr>,
           s\<lparr>db := session_delete_commit (db s) user\<rparr>))"

definition TokenRefresh_post :: "env \<Rightarrow> authorization \<Rightarrow> app_state \<Rightarrow> view_result" where
  "TokenRefresh_post e a s =
     (case jwt_required True e a s of
        Inl x \<Rightarrow> (Inl x, s)
      | Inr jwt \<Rightarrow>
          (let current_user = sub jwt;
               new_token = create_access_token e 0 current_user False
           in (Inr \<lparr>status = 200, body = [(''access_token'', JTok new_token)]\<rparr>,
               BLOCKLIST_add (jti jwt) s)))"

section \<open>The application: routes and dispatch (src/app.py)\<close>

datatype request =
    POST_register user_data
  | POST_login user_data
  | POST_logout authorization
  | GET_user int
  | DELETE_user int
  | POST_refresh authorization

definition view :: "env \<Rightarrow> request \<Rightarrow> app_state \<Rightarrow> view_result" where
  "view e r s =
     (case r of
        POST_register ud \<Rightarrow> UserRegister_post e ud s
      | POST_login ud \<Rightarrow> UserLogin_post e ud s
      | POST_logout a \<Rightarrow> UserLogout_post e a s
      | GET_user ident \<Rightarrow> User_get ident s
      | DELETE_user ident \<Rightarrow> User_delete ident s
      | POST_refresh a \<Rightarrow> TokenRefresh_post e a s)"

text \<open>One request, start to finish: the response the client sees and the state left behind.\<close>

definition dispatch :: "env \<Rightarrow> request \<Rightarrow> app_state \<Rightarrow> response \<times> app_state" where
  "dispatch e r s =
     (case view e r s of
        (Inl x, s') \<Rightarrow> (handle_exception x, s')
      | (Inr resp, s') \<Rightarrow> (resp, s'))"

text \<open>The \<open>error\<close> member of a response body, the machine-readable code of a token failure.\<close>

definition error_code :: "response \<Rightarrow> json option" where
  "error_code resp = map_of (body resp) ''error''"

text \<open>A sequence of requests, each with the world it meets, handled one after the other.\<close>

fun run :: "(env \<times> request) list \<Rightarrow> app_state \<Rightarrow> app_state" where
  "run [] s = s"
| "run ((e, r) # rest) s = run rest (snd (dispatch e r s))"

section \<open>The schema migration (src/migrations/versions/ffc4b5ea7515)\<close>

datatype sqltype = INTEGER | VARCHAR nat

record column =
  column_name :: string
  column_type :: sqltype
  autoincrement :: bool
  nullable :: bool

datatype table_constraint =
    PrimaryKeyConstraint "string list" string
  | UniqueConstraint "string list" string

record table =
  columns :: "column list"
  constraints :: "table_constraint list"

text \<open>A database schema: its tables by name. Only the layout is modelled, not the rows.\<close>

type_synonym schema = "string \<rightharpoonup> table"

datatype ddl_error = UndefinedTable string | DuplicateTable string | UndefinedColumn string

definition drop_table :: "string \<Rightarrow> schema \<Rightarrow> ddl_error + schema" where
  "drop_table name sch =
     (case sch name of
        None \<Rightarrow> Inl (UndefinedTable name)
      | Some _ \<Rightarrow> Inr (sch(name := None)))"

definition create_table :: "string \<Rightarrow> column list \<Rightarrow> table_constraint list \<Rightarrow> schema \<Rightarrow> ddl_error + schema" where
  "create_table name cols cons sch =
     (case sch name of
        Some _ \<Rightarrow> Inl (DuplicateTable name)
      | None \<Rightarrow> Inr (sch(name \<mapsto> \<lparr>columns = cols, constraints = cons\<rparr>)))"

text \<open>
  \<open>batch_op.alter_column(col, existing_type=..., type_=ty, existing_nullable=...)\<close>
  inside \<open>op.batch_alter_table(name)\<close>: the column gets the new type. The
  \<open>existing_\<close> arguments describe the column to the migration tool and are not
  checked against the table.
\<close>

definition alter_column_type :: "string \<Rightarrow> sqltype \<Rightarrow> column \<Rightarrow> column" where
  "alter_column_type col ty c = (if column_name c = col then c\<lparr>column_type := ty\<rparr> else c)"

definition batch_alter_column :: "string \<Rightarrow> string \<Rightarrow> sqltype \<Rightarrow> schema \<Rightarrow> ddl_error + schema" where
  "batch_alter_column name col ty sch =
     (case sch name of
        None \<Rightarrow> Inl (UndefinedTable name)
      | Some t \<Rightarrow>
          if col \<notin> set (map column_name (columns t)) then Inl (UndefinedColumn col)
          else Inr (sch(name \<mapsto> t\<lparr>columns := map (alter_column_type col ty) (columns t)\<rparr>)))"

definition upgrade :: "schema \<Rightarrow> ddl_error + schema" where
  "upgrade sch =
     (case drop_table ''User'' sch of
        Inl x \<Rightarrow> Inl x
      | Inr sch1 \<Rightarrow> batch_alter_column ''users'' ''password'' (VARCHAR 200) sch1)"

definition legacy_User_columns :: "column list" where
  "legacy_User_columns =
     [\<lparr>column_name = ''id'', column_type = INTEGER, autoincrement = True, nullable = False\<rparr>,
      \<lparr>column_name = ''username'', column_type = VARCHAR 80, autoincrement = False,
        nullable = False\<rparr>,
      \<lparr>column_name = ''email'', column_type = VARCHAR 120, autoincrement = False,
        nullable = False\<rparr>]"

definition legacy_User_constraints :: "table_constraint list" where
  "legacy_User_constraints =
     [PrimaryKeyConstraint [''id''] ''User_pkey'',
      UniqueConstraint [''email''] ''User_email_key'',
      UniqueConstraint [''username''] ''User_username_key'']"

definition downgrade :: "schema \<Rightarrow> ddl_error + schema" where
  "downgrade sch =
     (case batch_alter_column ''users'' ''password'' (VARCHAR 80) sch of
        Inl x \<Rightarrow> Inl x
      | Inr sch1 \<Rightarrow> create_table ''User'' legacy_User_columns legacy_User_constraints sch1)"

section \<open>Concrete inputs\<close>

text \<open>
  A world for evaluating the model: a clock reading, two token identifiers, and a
  stand-in for the password hash that prefixes the scheme's marker (the real digest
  is not computed here).
\<close>

definition sample_env :: env where
  "sample_env =
     \<lparr>now = 1000,
      uuid4 = (\<lambda>k. if k = 0 then ''uuid-a'' else ''uuid-b''),
      pbkdf2_sha256_hash = (\<lambda>p. ''$pbkdf2-sha256$'' @ p),
      pbkdf2_sha256_verify =
        (\<lambda>p h. if hd h = CHR ''$'' then Some (h = ''$pbkdf2-sha256$'' @ p) else None)\<rparr>"

definition alice :: user_data where
  "alice = \<lparr>data_username = ''alice'', data_password = ''wonderland''\<rparr>"

definition alice_row :: UserModel where
  "alice_row = \<lparr>user_id = 1, username = ''alice'', password = ''$pbkdf2-sha256$wonderland''\<rparr>"

definition overlong :: user_data where
  "overlong = \<lparr>data_username = replicate 81 (CHR ''a''), data_password = ''pw''\<rparr>"

text \<open>The state after \<open>alice\<close> has registered in \<open>sample_env\<close> from the initial state.\<close>

definition alice_state :: app_state where
  "alice_state = \<lparr>db = \<lparr>users = [alice_row], users_id_seq = 2\<rparr>, BLOCKLIST = {}\<rparr>"

text \<open>The two tokens a login of \<open>alice\<close> in \<open>sample_env\<close> issues.\<close>

definition alice_access :: token where
  "alice_access = create_access_token sample_env 0 1 True"

definition alice_refresh :: token where
  "alice_refresh = create_refresh_token sample_env 1 1"

text \<open>The schema the migration was generated against: the legacy table beside \<open>users\<close>.\<close>

definition users_table_80 :: table where
  "users_table_80 =
     \<lparr>columns =
        [\<lparr>column_name = ''id'', column_type = INTEGER, autoincrement = True, nullable = False\<rparr>,
         \<lparr>column_name = ''username'', column_type = VARCHAR 80, autoincrement = False,
           nullable = False\<rparr>,
         \<lparr>column_name = ''password'', column_type = VARCHAR 80, autoincrement = False,
           nullable = False\<rparr>],
      constraints =
        [PrimaryKeyConstraint [''id''] ''users_pkey'',
         UniqueConstraint [''username''] ''users_username_key'']\<rparr>"

definition schema_before :: schema where
  "schema_before =
     [''User'' \<mapsto> \<lparr>columns = legacy_User_columns, constraints = legacy_User_constraints\<rparr>,
      ''users'' \<mapsto> users_table_80]"

text \<open>The same schema once the migration has run.\<close>

definition users_table_200 :: table where
  "users_table_200 =
     \<lparr>columns =
        [\<lparr>column_name = ''id'', column_type = INTEGER, autoincrement = True, nullable = False\<rparr>,
         \<lparr>column_name = ''username'', column_type = VARCHAR 80, autoincrement = False,
           nullable = False\<rparr>,
         \<lparr>column_name = ''password'', column_type = VARCHAR 200, autoincrement = False,
           nullable = False\<rparr>],
      constraints =
        [PrimaryKeyConstraint [''id''] ''users_pkey'',
         UniqueConstraint [''username''] ''users_username_key'']\<rparr>"

definition schema_after :: schema where
  "schema_after = [''users'' \<mapsto> users_table_200]"

section \<open>Registering a user\<close>

lemma query_taken:
  "query_filter_username_first d name \<noteq> None \<longleftrightarrow> name \<in> set (map username (users d))"
  by (auto simp: query_filter_username_first_def find_None_iff)


lemma register_taken:
  assumes "data_username ud \<in> set (map username (users (db s)))"
  shows "dispatch e (POST_register ud) s =
           (http_error 409 (Some ''A user with that username already exists.''), s)"
  using assms query_taken[of "db s" "data_username ud"]
  by (simp add: dispatch_def view_def UserRegister_post_def)


lemma register_fresh:
  assumes "data_username ud \<notin> set (map username (users (db s)))"
  shows "dispatch e (POST_register ud) s =
           (case UserRegister_post_insert e ud s of
              (Inl x, s') \<Rightarrow> (handle_exception x, s')
            | (Inr resp, s') \<Rightarrow> (resp, s'))"
  using assms query_taken[of "db s" "data_username ud"]
  by (simp add: dispatch_def view_def UserRegister_post_def)

lemma session_add_commit_error:
  assumes "fst (session_add_commit d name pw) = Inl x"
  shows "(x = DataError \<or> x = IntegrityError)
         \<and> users (snd (session_add_commit d name pw)) = users d"
  using assms by (auto simp: session_add_commit_def split: if_splits)

lemma insert_rejected:
  assumes "fst (session_add_commit (db s) (data_username ud)
                  (pbkdf2_sha256_hash e (data_password ud))) = Inl x"
  shows "fst (UserRegister_post_insert e ud s) = Inl x
         \<and> users (db (snd (UserRegister_post_insert e ud s))) = users (db s)
         \<and> BLOCKLIST (snd (UserRegister_post_insert e ud s)) = BLOCKLIST s"
  using assms session_add_commit_error[OF assms]
  by (cases "session_add_commit (db s) (data_username ud)
                  (pbkdf2_sha256_hash e (data_password ud))")
     (auto simp: UserRegister_post_insert_def)

lemma register_status_409_iff:
  "status (fst (dispatch e (POST_register ud) s)) = 409
     \<longleftrightarrow> data_username ud \<in> set (map username (users (db s)))"
proof (cases "data_username ud \<in> set (map username (users (db s)))")
  case True
  then show ?thesis by (simp add: register_taken http_error_def)
next
  case False
  obtain r d where c: "session_add_commit (db s) (data_username ud)
                  (pbkdf2_sha256_hash e (data_password ud)) = (r, d)"
    by (cases "session_add_commit (db s) (data_username ud)
                  (pbkdf2_sha256_hash e (data_password ud))")
  show ?thesis
  proof (cases r)
    case (Inl x)
    with c have "x = DataError \<or> x = IntegrityError"
      using session_add_commit_error[of "db s" "data_username ud"
          "pbkdf2_sha256_hash e (data_password ud)" x] by simp
    with False c Inl show ?thesis
      by (auto simp: register_fresh UserRegister_post_insert_def http_error_def)
  next
    case (Inr u)
    with False c show ?thesis
      by (simp add: register_fresh UserRegister_post_insert_def)
  qed
qed




text \<open>
  Claim C6, as the code has it. Whatever the commit of a registration raises leaves
  the view as it is: the answer is the 500 of an unhandled exception, with the rows of
  the store unchanged. No storage failure is turned into a conflict; the answer to a
  register request is 409 exactly when the check of line 51 finds the username.
\<close>

theorem register_commit_failure_propagates:
  "(fst (session_add_commit (db s) (data_username ud)
           (pbkdf2_sha256_hash e (data_password ud))) = Inl x \<longrightarrow>
      fst (UserRegister_post_insert e ud s) = Inl x
      \<and> handle_exception x =
          \<lparr>status = 500, body = [(''code'', JInt 500), (''status'', JStr ''Internal Server Error'')]\<rparr>
      \<and> users (db (snd (UserRegister_post_insert e ud s))) = users (db s)
      \<and> (data_username ud \<notin> set (map username (users (db s))) \<longrightarrow>
           fst (dispatch e (POST_register ud) s) =
             \<lparr>status = 500,
              body = [(''code'', JInt 500), (''status'', JStr ''Internal Server Error'')]\<rparr>
           \<and> users (db (snd (dispatch e (POST_register ud) s))) = users (db s)))
   \<and> (status (fst (dispatch e (POST_register ud) s)) = 409
        \<longleftrightarrow> data_username ud \<in> set (map username (users (db s))))"
proof (intro conjI impI)
  assume a: "fst (session_add_commit (db s) (data_username ud)
           (pbkdf2_sha256_hash e (data_password ud))) = Inl x"
  from insert_rejected[OF a] show i: "fst (UserRegister_post_insert e ud s) = Inl x"
    and u: "users (db (snd (UserRegister_post_insert e ud s))) = users (db s)"
    by simp_all
  from session_add_commit_error[OF a] show h: "handle_exception x =
          \<lparr>status = 500, body = [(''code'', JInt 500), (''status'', JStr ''Internal Server Error'')]\<rparr>"
    by (auto simp: http_error_def status_name_def)
  assume f: "data_username ud \<notin> set (map username (users (db s)))"
  obtain r s' where v: "UserRegister_post_insert e ud s = (r, s')"
    by (cases "UserRegister_post_insert e ud s")
  with i have r: "r = Inl x" by simp
  from f v r have d: "dispatch e (POST_register ud) s = (handle_exception x, s')"
    by (simp add: register_fresh)
  from d h show "fst (dispatch e (POST_register ud) s) =
             \<lparr>status = 500,
              body = [(''code'', JInt 500), (''status'', JStr ''Internal Server Error'')]\<rparr>"
    by simp
  from d u v show "users (db (snd (dispatch e (POST_register ud) s))) = users (db s)"
    by simp
next
  show "status (fst (dispatch e (POST_register ud) s)) = 409
        \<longleftrightarrow> data_username ud \<in> set (map username (users (db s)))"
    by (rule register_status_409_iff)
qed

theorem register_commit_failure_propagates_witness:
  "fst (UserRegister_post_insert sample_env alice alice_state) = Inl IntegrityError
   \<and> handle_exception IntegrityError =
       \<lparr>status = 500, body = [(''code'', JInt 500), (''status'', JStr ''Internal Server Error'')]\<rparr>
   \<and> users (db (snd (UserRegister_post_insert sample_env alice alice_state))) = [alice_row]
   \<and> status (fst (dispatch sample_env (POST_register alice) alice_state)) = 409
   \<and> fst (dispatch sample_env (POST_register overlong) initial_state) =
       \<lparr>status = 500, body = [(''code'', JInt 500), (''status'', JStr ''Internal Server Error'')]\<rparr>
   \<and> users (db (snd (dispatch sample_env (POST_register overlong) initial_state))) = []"
proof -
  have race: "fst (session_add_commit (db alice_state) (data_username alice)
           (pbkdf2_sha256_hash sample_env (data_password alice))) = Inl IntegrityError"
    by (simp add: session_add_commit_def username_length_def password_length_def
      alice_def alice_state_def alice_row_def sample_env_def)
  have long: "fst (session_add_commit (db initial_state) (data_username overlong)
           (pbkdf2_sha256_hash sample_env (data_password overlong))) = Inl DataError"
    by (simp add: session_add_commit_def username_length_def overlong_def)
  have free: "data_username overlong \<notin> set (map username (users (db initial_state)))"
    by (simp add: initial_state_def)
  have taken: "data_username alice \<in> set (map username (users (db alice_state)))"
    by (simp add: alice_def alice_state_def alice_row_def)
  from register_commit_failure_propagates[of alice_state alice sample_env IntegrityError]
    race taken
  have 1: "fst (UserRegister_post_insert sample_env alice alice_state) = Inl IntegrityError"
    and 2: "handle_exception IntegrityError =
       \<lparr>status = 500, body = [(''code'', JInt 500), (''status'', JStr ''Internal Server Error'')]\<rparr>"
    and 3: "users (db (snd (UserRegister_post_insert sample_env alice alice_state)))
              = users (db alice_state)"
    and 4: "status (fst (dispatch sample_env (POST_register alice) alice_state)) = 409"
    by blast+
  from register_commit_failure_propagates[of initial_state overlong sample_env DataError]
    long free
  have 5: "fst (dispatch sample_env (POST_register overlong) initial_state) =
       \<lparr>status = 500, body = [(''code'', JInt 500), (''status'', JStr ''Internal Server Error'')]\<rparr>"
    and 6: "users (db (snd (dispatch sample_env (POST_register overlong) initial_state)))
              = users (db initial_state)"
    by blast+
  have "users (db alice_state) = [alice_row]" "users (db initial_state) = []"
    by (simp_all add: alice_state_def initial_state_def)
  with 1 2 3 4 5 6 show ?thesis by simp
qed

text \<open>
  The claim fails at both kinds of commit failure. Sequentially: an over-long username
  that is not taken passes the check, the commit raises \<open>DataError\<close>, the answer is 500.
  With another request in between: when \<open>alice\<close> has been committed after the check
  and before lines 54 to 61 run, the commit raises \<open>IntegrityError\<close>, again a 500.
\<close>

theorem register_commit_failure_counterexample:
  "fst (session_add_commit (db alice_state) (data_username overlong)
          (pbkdf2_sha256_hash sample_env (data_password overlong))) = Inl DataError
   \<and> status (fst (dispatch sample_env (POST_register overlong) alice_state)) = 500
   \<and> fst (UserRegister_post_insert sample_env alice alice_state) = Inl IntegrityError
   \<and> status (handle_exception IntegrityError) = 500"
proof -
  have "length (replicate 81 (CHR ''a'')) \<noteq> length ''alice''"
    by simp
  then have "''alice'' \<noteq> replicate 81 (CHR ''a'')"
    by metis
  then show ?thesis
    by (simp add: dispatch_def view_def UserRegister_post_def UserRegister_post_insert_def
        query_filter_username_first_def session_add_commit_def username_length_def
        password_length_def overlong_def alice_def alice_state_def alice_row_def sample_env_def
        http_error_def)
qed

section \<open>Logging in\<close>



lemma login_verified:
  assumes "query_filter_username_first (db s) (data_username ud) = Some user"
    and "pbkdf2_sha256_verify e (data_password ud) (password user) = Some True"
  shows "dispatch e (POST_login ud) s =
           (\<lparr>status = 200,
             body = [(''access_token'', JTok (create_access_token e 0 (user_id user) True)),
                     (''refresh_token'', JTok (create_refresh_token e 1 (user_id user)))]\<rparr>, s)"
  using assms by (simp add: dispatch_def view_def UserLogin_post_def)

lemma access_token_payload:
  "payload (create_access_token e k i fr) =
     \<lparr>fresh = fr, iat = now e, jti = uuid4 e k, token_type = Access, sub = i,
      nbf = now e, exp = now e + 900\<rparr>"
  by (simp add: create_access_token_def encode_jwt_def JWT_ACCESS_TOKEN_EXPIRES_def)

lemma refresh_token_payload:
  "payload (create_refresh_token e k i) =
     \<lparr>fresh = False, iat = now e, jti = uuid4 e k, token_type = Refresh, sub = i,
      nbf = now e, exp = now e + 2592000\<rparr>"
  by (simp add: create_refresh_token_def encode_jwt_def JWT_REFRESH_TOKEN_EXPIRES_def)



text \<open>
  Claim C3. A login whose user exists and whose password verifies against the stored
  hash is answered 200 with an access token and a refresh token that differ; the
  access token is fresh, of type access and carries the user's id as its identity,
  the refresh token is of type refresh and carries the same id.
\<close>

theorem login_success_tokens:
  assumes "query_filter_username_first (db s) (data_username ud) = Some user"
    and "pbkdf2_sha256_verify e (data_password ud) (password user) = Some True"
  shows "dispatch e (POST_login ud) s =
           (\<lparr>status = 200,
             body = [(''access_token'', JTok (create_access_token e 0 (user_id user) True)),
                     (''refresh_token'', JTok (create_refresh_token e 1 (user_id user)))]\<rparr>, s)
         \<and> create_access_token e 0 (user_id user) True \<noteq> create_refresh_token e 1 (user_id user)
         \<and> fresh (payload (create_access_token e 0 (user_id user) True))
         \<and> sub (payload (create_access_token e 0 (user_id user) True)) = user_id user
         \<and> token_type (payload (create_access_token e 0 (user_id user) True)) = Access
         \<and> sub (payload (create_refresh_token e 1 (user_id user))) = user_id user
         \<and> token_type (payload (create_refresh_token e 1 (user_id user))) = Refresh"
proof -
  have "token_type (payload (create_access_token e 0 (user_id user) True))
          \<noteq> token_type (payload (create_refresh_token e 1 (user_id user)))"
    by (simp add: access_token_payload refresh_token_payload)
  then have "create_access_token e 0 (user_id user) True \<noteq> create_refresh_token e 1 (user_id user)"
    by metis
  then show ?thesis
    using login_verified[OF assms]
    by (simp add: access_token_payload refresh_token_payload)
qed

theorem login_success_tokens_witness:
  "dispatch sample_env (POST_login alice) alice_state =
     (\<lparr>status = 200,
       body = [(''access_token'',
                JTok (Jws ''jose'' \<lparr>fresh = True, iat = 1000, jti = ''uuid-a'',
                        token_type = Access, sub = 1, nbf = 1000, exp = 1900\<rparr>)),
               (''refresh_token'',
                JTok (Jws ''jose'' \<lparr>fresh = False, iat = 1000, jti = ''uuid-b'',
                        token_type = Refresh, sub = 1, nbf = 1000, exp = 2593000\<rparr>))]\<rparr>,
      alice_state)"
  using login_success_tokens[of alice_state alice alice_row sample_env]
  by (simp add: query_filter_username_first_def alice_state_def alice_row_def alice_def
      sample_env_def create_access_token_def create_refresh_token_def encode_jwt_def
      JWT_SECRET_KEY_def JWT_ACCESS_TOKEN_EXPIRES_def JWT_REFRESH_TOKEN_EXPIRES_def)

section \<open>Looking a user up and deleting one\<close>

lemma find_user_id:
  assumes "ident \<in> user_id ` set (users d)"
  shows "\<exists>user \<in> set (users d). user_id user = ident
            \<and> find (\<lambda>u. user_id u = ident) (users d) = Some user"
proof (cases "find (\<lambda>u. user_id u = ident) (users d)")
  case None
  with assms show ?thesis by (auto simp: find_None_iff)
next
  case (Some u)
  then show ?thesis by (auto simp: find_Some_iff)
qed

lemma dump_UserSchema:
  "dump UserSchema u = [(''id'', JInt (user_id u)), (''username'', JStr (username u))]"
  by (simp add: dump_def UserSchema_def)

lemma get_found:
  assumes "find (\<lambda>u. user_id u = ident) (users (db s)) = Some user"
  shows "dispatch e (GET_user ident) s =
           (\<lparr>status = 200,
             body = [(''id'', JInt (user_id user)), (''username'', JStr (username user))]\<rparr>, s)"
  using assms
  by (simp add: dispatch_def view_def User_get_def query_get_or_404_def dump_UserSchema)

lemma get_delete_absent:
  assumes "ident \<notin> user_id ` set (users (db s))"
  shows "dispatch e (GET_user ident) s = (http_error 404 None, s)"
    and "dispatch e (DELETE_user ident) s = (http_error 404 None, s)"
proof -
  from assms have "find (\<lambda>u. user_id u = ident) (users (db s)) = None"
    by (auto simp: find_None_iff)
  then show "dispatch e (GET_user ident) s = (http_error 404 None, s)"
    and "dispatch e (DELETE_user ident) s = (http_error 404 None, s)"
    by (simp_all add: dispatch_def view_def User_get_def User_delete_def query_get_or_404_def)
qed

text \<open>
  Claim C8. For the id of a stored user, Get User answers 200 with a body whose
  members are exactly \<open>id\<close> and \<open>username\<close>, those of a stored user with that id, and
  no \<open>password\<close>; for an id no stored user has, Get User and Delete User both answer
  404.
\<close>

theorem get_user_body_and_not_found:
  "(ident \<in> user_id ` set (users (db s)) \<longrightarrow>
      (\<exists>user \<in> set (users (db s)). user_id user = ident
         \<and> dispatch e (GET_user ident) s =
             (\<lparr>status = 200,
               body = [(''id'', JInt ident), (''username'', JStr (username user))]\<rparr>, s))
      \<and> map fst (body (fst (dispatch e (GET_user ident) s))) = [''id'', ''username'']
      \<and> map_of (body (fst (dispatch e (GET_user ident) s))) ''password'' = None)
   \<and> (ident \<notin> user_id ` set (users (db s)) \<longrightarrow>
      dispatch e (GET_user ident) s =
        (\<lparr>status = 404, body = [(''code'', JInt 404), (''status'', JStr ''Not Found'')]\<rparr>, s)
      \<and> dispatch e (DELETE_user ident) s =
        (\<lparr>status = 404, body = [(''code'', JInt 404), (''status'', JStr ''Not Found'')]\<rparr>, s))"
proof (intro conjI impI)
  assume "ident \<in> user_id ` set (users (db s))"
  then obtain user where u: "user \<in> set (users (db s))" "user_id user = ident"
    "find (\<lambda>u. user_id u = ident) (users (db s)) = Some user"
    using find_user_id[of ident "db s"] by blast
  from get_found[OF u(3), of e] u(2)
  have g: "dispatch e (GET_user ident) s =
             (\<lparr>status = 200,
               body = [(''id'', JInt ident), (''username'', JStr (username user))]\<rparr>, s)"
    by simp
  with u show "\<exists>user \<in> set (users (db s)). user_id user = ident
         \<and> dispatch e (GET_user ident) s =
             (\<lparr>status = 200,
               body = [(''id'', JInt ident), (''username'', JStr (username user))]\<rparr>, s)"
    by blast
  show "map fst (body (fst (dispatch e (GET_user ident) s))) = [''id'', ''username'']"
    by (simp add: g)
  show "map_of (body (fst (dispatch e (GET_user ident) s))) ''password'' = None"
    by (simp add: g)
next
  assume a: "ident \<notin> user_id ` set (users (db s))"
  show "dispatch e (GET_user ident) s =
        (\<lparr>status = 404, body = [(''code'', JInt 404), (''status'', JStr ''Not Found'')]\<rparr>, s)"
    using get_delete_absent(1)[OF a] by (simp add: http_error_def status_name_def)
  show "dispatch e (DELETE_user ident) s =
        (\<lparr>status = 404, body = [(''code'', JInt 404), (''status'', JStr ''Not Found'')]\<rparr>, s)"
    using get_delete_absent(2)[OF a] by (simp add: http_error_def status_name_def)
qed

theorem get_user_body_and_not_found_witness:
  "dispatch sample_env (GET_user 1) alice_state =
     (\<lparr>status = 200, body = [(''id'', JInt 1), (''username'', JStr ''alice'')]\<rparr>, alice_state)
   \<and> status (fst (dispatch sample_env (GET_user 2) alice_state)) = 404
   \<and> status (fst (dispatch sample_env (DELETE_user 2) alice_state)) = 404"
  using get_user_body_and_not_found[of 1 alice_state sample_env]
    get_user_body_and_not_found[of 2 alice_state sample_env]
  by (simp add: alice_state_def alice_row_def)

section \<open>The protected routes and the revocation registry\<close>

lemma decode_token_Inr:
  "decode_token t tok = Inr c \<longleftrightarrow>
     signing_key tok = JWT_SECRET_KEY \<and> iat (payload tok) \<le> t \<and> nbf (payload tok) \<le> t
     \<and> t < exp (payload tok) \<and> c = payload tok"
  by (auto simp: decode_token_def)

lemma jwt_required_accepts:
  assumes "decode_token (now e) tok = Inr c"
    and "(token_type c = Refresh) = refresh"
    and "jti c \<notin> BLOCKLIST s"
  shows "jwt_required refresh e (Bearer tok) s = Inr c"
  using assms
  by (auto simp: jwt_required_def verify_token_type_def check_if_token_in_blocklist_def)

lemma jwt_required_wrong_type:
  assumes "decode_token (now e) tok = Inr c"
    and "(token_type c = Refresh) \<noteq> refresh"
  shows "jwt_required refresh e (Bearer tok) s = Inl WrongTokenError"
  using assms by (auto simp: jwt_required_def verify_token_type_def)

lemma jwt_required_revoked:
  assumes "decode_token (now e) tok = Inr c"
    and "(token_type c = Refresh) = refresh"
    and "jti c \<in> BLOCKLIST s"
  shows "jwt_required refresh e (Bearer tok) s = Inl RevokedTokenError"
  using assms
  by (auto simp: jwt_required_def verify_token_type_def check_if_token_in_blocklist_def)

lemma jwt_required_db:
  "jwt_required refresh e a (s\<lparr>db := d\<rparr>) = jwt_required refresh e a s"
  by (simp add: jwt_required_def check_if_token_in_blocklist_def
      split: authorization.splits sum.splits)

lemma jwt_required_payload:
  assumes "jwt_required refresh e a s = Inr c"
  shows "\<exists>tok. a = Bearer tok \<and> c = payload tok"
  using assms
  by (auto simp: jwt_required_def decode_token_def split: authorization.splits sum.splits if_splits)

lemma logout_result:
  "dispatch e (POST_logout a) s =
     (case jwt_required False e a s of
        Inl x \<Rightarrow> (handle_exception x, s)
      | Inr c \<Rightarrow> (\<lparr>status = 200, body = [(''message'', JStr ''Successfully logged out'')]\<rparr>,
                  s\<lparr>BLOCKLIST := insert (jti c) (BLOCKLIST s)\<rparr>))"
  by (simp add: dispatch_def view_def UserLogout_post_def BLOCKLIST_add_def split: sum.splits)

lemma refresh_result:
  "dispatch e (POST_refresh a) s =
     (case jwt_required True e a s of
        Inl x \<Rightarrow> (handle_exception x, s)
      | Inr c \<Rightarrow> (\<lparr>status = 200,
                   body = [(''access_token'', JTok (create_access_token e 0 (sub c) False))]\<rparr>,
                  s\<lparr>BLOCKLIST := insert (jti c) (BLOCKLIST s)\<rparr>))"
  by (simp add: dispatch_def view_def TokenRefresh_post_def BLOCKLIST_add_def split: sum.splits)

lemma register_BLOCKLIST:
  "BLOCKLIST (snd (dispatch e (POST_register ud) s)) = BLOCKLIST s"
  by (simp add: dispatch_def view_def UserRegister_post_def UserRegister_post_insert_def
      split: prod.splits sum.splits)

lemma login_BLOCKLIST:
  "BLOCKLIST (snd (dispatch e (POST_login ud) s)) = BLOCKLIST s"
  by (simp add: dispatch_def view_def UserLogin_post_def split: option.splits bool.splits)

lemma get_BLOCKLIST:
  "BLOCKLIST (snd (dispatch e (GET_user i) s)) = BLOCKLIST s"
  by (simp add: dispatch_def view_def User_get_def split: sum.splits)

lemma delete_BLOCKLIST:
  "BLOCKLIST (snd (dispatch e (DELETE_user i) s)) = BLOCKLIST s"
  by (simp add: dispatch_def view_def User_delete_def split: sum.splits)

lemma delete_state:
  "\<exists>d. snd (dispatch e (DELETE_user i) s) = s\<lparr>db := d\<rparr>"
proof (cases "query_get_or_404 (db s) i")
  case (Inl x)
  then have "snd (dispatch e (DELETE_user i) s) = s\<lparr>db := db s\<rparr>"
    by (simp add: dispatch_def view_def User_delete_def)
  then show ?thesis by blast
next
  case (Inr u)
  then have "snd (dispatch e (DELETE_user i) s) = s\<lparr>db := session_delete_commit (db s) u\<rparr>"
    by (simp add: dispatch_def view_def User_delete_def)
  then show ?thesis by blast
qed

lemma dispatch_BLOCKLIST_cases:
  "BLOCKLIST (snd (dispatch e r s)) = BLOCKLIST s
   \<or> (\<exists>tok. (r = POST_logout (Bearer tok) \<or> r = POST_refresh (Bearer tok))
          \<and> BLOCKLIST (snd (dispatch e r s)) = insert (jti (payload tok)) (BLOCKLIST s))"
proof (cases r)
  case (POST_register ud)
  then show ?thesis by (simp add: register_BLOCKLIST)
next
  case (POST_login ud)
  then show ?thesis by (simp add: login_BLOCKLIST)
next
  case (POST_logout a)
  show ?thesis
  proof (cases "jwt_required False e a s")
    case (Inl x)
    with POST_logout show ?thesis by (simp add: logout_result)
  next
    case (Inr c)
    from jwt_required_payload[OF Inr] obtain tok where "a = Bearer tok" "c = payload tok"
      by blast
    with POST_logout Inr show ?thesis by (simp add: logout_result)
  qed
next
  case (GET_user i)
  then show ?thesis by (simp add: get_BLOCKLIST)
next
  case (DELETE_user i)
  then show ?thesis by (simp add: delete_BLOCKLIST)
next
  case (POST_refresh a)
  show ?thesis
  proof (cases "jwt_required True e a s")
    case (Inl x)
    with POST_refresh show ?thesis by (simp add: refresh_result)
  next
    case (Inr c)
    from jwt_required_payload[OF Inr] obtain tok where "a = Bearer tok" "c = payload tok"
      by blast
    with POST_refresh Inr show ?thesis by (simp add: refresh_result)
  qed
qed

lemma dispatch_BLOCKLIST_mono: "BLOCKLIST s \<subseteq> BLOCKLIST (snd (dispatch e r s))"
  using dispatch_BLOCKLIST_cases[of e r s] by auto

lemma run_BLOCKLIST_mono: "BLOCKLIST s \<subseteq> BLOCKLIST (run rs s)"
proof (induction rs arbitrary: s)
  case Nil
  then show ?case by simp
next
  case (Cons x rs)
  obtain e r where x: "x = (e, r)" by (cases x)
  have "BLOCKLIST s \<subseteq> BLOCKLIST (snd (dispatch e r s))"
    by (rule dispatch_BLOCKLIST_mono)
  also have "\<dots> \<subseteq> BLOCKLIST (run rs (snd (dispatch e r s)))"
    by (rule Cons.IH)
  finally show ?case by (simp add: x)
qed

lemma replay_revoked:
  assumes "decode_token (now e') tok = Inr c"
    and "(token_type c = Refresh) = refresh"
    and "jti c \<in> BLOCKLIST s"
  shows "jwt_required refresh e' (Bearer tok) (run rs s) = Inl RevokedTokenError"
  using assms run_BLOCKLIST_mono[of s rs] by (intro jwt_required_revoked) auto

lemma alice_access_decodes:
  "decode_token (now sample_env) alice_access = Inr (payload alice_access)"
  by (simp add: decode_token_def alice_access_def create_access_token_def encode_jwt_def
      sample_env_def JWT_ACCESS_TOKEN_EXPIRES_def)

lemma alice_refresh_decodes:
  "decode_token (now sample_env) alice_refresh = Inr (payload alice_refresh)"
  by (simp add: decode_token_def alice_refresh_def create_refresh_token_def encode_jwt_def
      sample_env_def JWT_REFRESH_TOKEN_EXPIRES_def)

lemma alice_access_payload:
  "payload alice_access =
     \<lparr>fresh = True, iat = 1000, jti = ''uuid-a'', token_type = Access, sub = 1,
      nbf = 1000, exp = 1900\<rparr>"
  by (simp add: alice_access_def access_token_payload sample_env_def)

lemma alice_refresh_payload:
  "payload alice_refresh =
     \<lparr>fresh = False, iat = 1000, jti = ''uuid-b'', token_type = Refresh, sub = 1,
      nbf = 1000, exp = 2593000\<rparr>"
  by (simp add: alice_refresh_def refresh_token_payload sample_env_def)

text \<open>
  Claim C4, as the code has it. Logout, declared with \<open>jwt_required()\<close>, accepts a
  token that decodes (signed with the application's key, within its time window), is
  of type access and is not revoked: it answers 200 and adds the token's \<open>jti\<close> to the
  registry. After any further requests, and for as long as the token still decodes,
  presenting it to Logout again is answered 401 with error code \<open>token_revoked\<close>;
  presenting it to Refresh is answered 401 with error code \<open>invalid_token\<close>, since the
  type of the token is checked before the registry is asked. A refresh token that
  decodes is refused by Logout with 401 and \<open>invalid_token\<close>, and nothing is revoked.
\<close>

theorem logout_revokes_access_token:
  "(decode_token (now e) tok = Inr c \<and> token_type c = Access \<and> jti c \<notin> BLOCKLIST s \<longrightarrow>
      dispatch e (POST_logout (Bearer tok)) s =
        (\<lparr>status = 200, body = [(''message'', JStr ''Successfully logged out'')]\<rparr>,
         s\<lparr>BLOCKLIST := insert (jti c) (BLOCKLIST s)\<rparr>)
      \<and> (\<forall>rs e'. decode_token (now e') tok = Inr c \<longrightarrow>
            fst (dispatch e' (POST_logout (Bearer tok))
                   (run rs (snd (dispatch e (POST_logout (Bearer tok)) s)))) =
              \<lparr>status = 401,
               body = [(''description'', JStr ''The token has been revoked.''),
                       (''error'', JStr ''token_revoked'')]\<rparr>
            \<and> fst (dispatch e' (POST_refresh (Bearer tok))
                   (run rs (snd (dispatch e (POST_logout (Bearer tok)) s)))) =
              \<lparr>status = 401,
               body = [(''message'', JStr ''Signature verification failed.''),
                       (''error'', JStr ''invalid_token'')]\<rparr>))
   \<and> (decode_token (now e) tok = Inr c \<and> token_type c = Refresh \<longrightarrow>
      dispatch e (POST_logout (Bearer tok)) s =
        (\<lparr>status = 401,
          body = [(''message'', JStr ''Signature verification failed.''),
                  (''error'', JStr ''invalid_token'')]\<rparr>, s))"
proof (intro conjI impI allI)
  assume a: "decode_token (now e) tok = Inr c \<and> token_type c = Access \<and> jti c \<notin> BLOCKLIST s"
  then have acc: "jwt_required False e (Bearer tok) s = Inr c"
    by (intro jwt_required_accepts) simp_all
  then show out: "dispatch e (POST_logout (Bearer tok)) s =
        (\<lparr>status = 200, body = [(''message'', JStr ''Successfully logged out'')]\<rparr>,
         s\<lparr>BLOCKLIST := insert (jti c) (BLOCKLIST s)\<rparr>)"
    by (simp add: logout_result)
  fix rs and e' :: env
  assume d: "decode_token (now e') tok = Inr c"
  let ?later = "run rs (snd (dispatch e (POST_logout (Bearer tok)) s))"
  from a have "jwt_required False e' (Bearer tok) ?later = Inl RevokedTokenError"
    by (intro replay_revoked[OF d]) (simp_all add: out)
  then show "fst (dispatch e' (POST_logout (Bearer tok)) ?later) =
              \<lparr>status = 401,
               body = [(''description'', JStr ''The token has been revoked.''),
                       (''error'', JStr ''token_revoked'')]\<rparr>"
    by (simp add: logout_result revoked_token_callback_def)
  from a have "jwt_required True e' (Bearer tok) ?later = Inl WrongTokenError"
    by (intro jwt_required_wrong_type[OF d]) simp
  then show "fst (dispatch e' (POST_refresh (Bearer tok)) ?later) =
              \<lparr>status = 401,
               body = [(''message'', JStr ''Signature verification failed.''),
                       (''error'', JStr ''invalid_token'')]\<rparr>"
    by (simp add: refresh_result invalid_token_callback_def)
next
  assume a: "decode_token (now e) tok = Inr c \<and> token_type c = Refresh"
  then have "jwt_required False e (Bearer tok) s = Inl WrongTokenError"
    by (intro jwt_required_wrong_type[of e tok c]) simp_all
  then show "dispatch e (POST_logout (Bearer tok)) s =
        (\<lparr>status = 401,
          body = [(''message'', JStr ''Signature verification failed.''),
                  (''error'', JStr ''invalid_token'')]\<rparr>, s)"
    by (simp add: logout_result invalid_token_callback_def)
qed

theorem logout_revokes_access_token_witness:
  "fst (dispatch sample_env (POST_logout (Bearer alice_access)) alice_state) =
     \<lparr>status = 200, body = [(''message'', JStr ''Successfully logged out'')]\<rparr>
   \<and> BLOCKLIST (snd (dispatch sample_env (POST_logout (Bearer alice_access)) alice_state))
       = {''uuid-a''}
   \<and> error_code (fst (dispatch sample_env (POST_logout (Bearer alice_access))
         (run [(sample_env, POST_login alice)]
            (snd (dispatch sample_env (POST_logout (Bearer alice_access)) alice_state)))))
       = Some (JStr ''token_revoked'')
   \<and> error_code (fst (dispatch sample_env (POST_logout (Bearer alice_refresh)) alice_state))
       = Some (JStr ''invalid_token'')"
proof -
  have valid: "decode_token (now sample_env) alice_access = Inr (payload alice_access)
      \<and> token_type (payload alice_access) = Access
      \<and> jti (payload alice_access) \<notin> BLOCKLIST alice_state"
    by (simp add: alice_access_decodes alice_access_payload alice_state_def)
  have valid_refresh: "decode_token (now sample_env) alice_refresh = Inr (payload alice_refresh)
      \<and> token_type (payload alice_refresh) = Refresh"
    by (simp add: alice_refresh_decodes alice_refresh_payload)
  from logout_revokes_access_token[of sample_env alice_access "payload alice_access" alice_state]
    valid
  have 1: "dispatch sample_env (POST_logout (Bearer alice_access)) alice_state =
        (\<lparr>status = 200, body = [(''message'', JStr ''Successfully logged out'')]\<rparr>,
         alice_state\<lparr>BLOCKLIST := insert (jti (payload alice_access)) (BLOCKLIST alice_state)\<rparr>)"
    and 2: "fst (dispatch sample_env (POST_logout (Bearer alice_access))
                   (run [(sample_env, POST_login alice)]
                      (snd (dispatch sample_env (POST_logout (Bearer alice_access)) alice_state))))
            = \<lparr>status = 401,
               body = [(''description'', JStr ''The token has been revoked.''),
                       (''error'', JStr ''token_revoked'')]\<rparr>"
    by blast+
  from logout_revokes_access_token[of sample_env alice_refresh "payload alice_refresh" alice_state]
    valid_refresh
  have 3: "dispatch sample_env (POST_logout (Bearer alice_refresh)) alice_state =
        (\<lparr>status = 401,
          body = [(''message'', JStr ''Signature verification failed.''),
                  (''error'', JStr ''invalid_token'')]\<rparr>, alice_state)"
    by blast
  have empty: "BLOCKLIST alice_state = {}"
    by (simp add: alice_state_def)
  show ?thesis
    using 2 by (simp add: 1 3 error_code_def alice_access_payload empty)
qed

text \<open>
  The claim as stated fails twice. The refresh token of a login, which Refresh
  accepts, is refused by Logout as an invalid token. And the access token that has
  just logged out is answered \<open>invalid_token\<close>, not \<open>token_revoked\<close>, by Refresh.
\<close>

theorem logout_refresh_token_counterexample:
  "jwt_required True sample_env (Bearer alice_refresh) alice_state = Inr (payload alice_refresh)
   \<and> fst (dispatch sample_env (POST_logout (Bearer alice_refresh)) alice_state) =
        \<lparr>status = 401,
         body = [(''message'', JStr ''Signature verification failed.''),
                 (''error'', JStr ''invalid_token'')]\<rparr>
   \<and> status (fst (dispatch sample_env (POST_logout (Bearer alice_access)) alice_state)) = 200
   \<and> error_code (fst (dispatch sample_env (POST_refresh (Bearer alice_access))
         (snd (dispatch sample_env (POST_logout (Bearer alice_access)) alice_state))))
       = Some (JStr ''invalid_token'')"
proof -
  have r: "jwt_required True sample_env (Bearer alice_refresh) alice_state
             = Inr (payload alice_refresh)"
    by (intro jwt_required_accepts alice_refresh_decodes)
       (simp_all add: alice_refresh_payload alice_state_def)
  have w: "jwt_required False sample_env (Bearer alice_refresh) alice_state = Inl WrongTokenError"
    by (intro jwt_required_wrong_type[OF alice_refresh_decodes])
       (simp add: alice_refresh_payload)
  have a: "jwt_required False sample_env (Bearer alice_access) alice_state
             = Inr (payload alice_access)"
    by (intro jwt_required_accepts alice_access_decodes)
       (simp_all add: alice_access_payload alice_state_def)
  have x: "jwt_required True sample_env (Bearer alice_access) s' = Inl WrongTokenError" for s'
    by (intro jwt_required_wrong_type[OF alice_access_decodes])
       (simp add: alice_access_payload)
  show ?thesis
    by (simp add: r logout_result refresh_result w a x invalid_token_callback_def error_code_def)
qed

text \<open>
  Claim C5. Refresh refuses a token that decodes and is of type access with 401, and
  changes nothing. Given a token that decodes, is of type refresh and is not revoked,
  it answers 200 with a new access token for the same identity whose \<open>fresh\<close> claim is
  false, and adds the refresh token's own \<open>jti\<close> to the registry; after any further
  requests, presenting the same refresh token again (while it still decodes, that is,
  before it expires) is answered 401 with error code \<open>token_revoked\<close>.
\<close>

theorem refresh_single_use:
  "(decode_token (now e) tok = Inr c \<and> token_type c = Access \<longrightarrow>
      status (fst (dispatch e (POST_refresh (Bearer tok)) s)) = 401
      \<and> snd (dispatch e (POST_refresh (Bearer tok)) s) = s)
   \<and> (decode_token (now e) tok = Inr c \<and> token_type c = Refresh \<and> jti c \<notin> BLOCKLIST s \<longrightarrow>
      dispatch e (POST_refresh (Bearer tok)) s =
        (\<lparr>status = 200,
          body = [(''access_token'', JTok (create_access_token e 0 (sub c) False))]\<rparr>,
         s\<lparr>BLOCKLIST := insert (jti c) (BLOCKLIST s)\<rparr>)
      \<and> sub (payload (create_access_token e 0 (sub c) False)) = sub c
      \<and> \<not> fresh (payload (create_access_token e 0 (sub c) False))
      \<and> token_type (payload (create_access_token e 0 (sub c) False)) = Access
      \<and> (\<forall>rs e'. decode_token (now e') tok = Inr c \<longrightarrow>
            fst (dispatch e' (POST_refresh (Bearer tok))
                   (run rs (snd (dispatch e (POST_refresh (Bearer tok)) s)))) =
              \<lparr>status = 401,
               body = [(''description'', JStr ''The token has been revoked.''),
                       (''error'', JStr ''token_revoked'')]\<rparr>))"
proof (intro conjI impI allI)
  assume a: "decode_token (now e) tok = Inr c \<and> token_type c = Access"
  then have w: "jwt_required True e (Bearer tok) s = Inl WrongTokenError"
    by (intro jwt_required_wrong_type[of e tok c]) simp_all
  then show "status (fst (dispatch e (POST_refresh (Bearer tok)) s)) = 401"
    by (simp add: refresh_result invalid_token_callback_def)
  from w show "snd (dispatch e (POST_refresh (Bearer tok)) s) = s"
    by (simp add: refresh_result)
next
  assume a: "decode_token (now e) tok = Inr c \<and> token_type c = Refresh \<and> jti c \<notin> BLOCKLIST s"
  then have "jwt_required True e (Bearer tok) s = Inr c"
    by (intro jwt_required_accepts) simp_all
  then show out: "dispatch e (POST_refresh (Bearer tok)) s =
        (\<lparr>status = 200,
          body = [(''access_token'', JTok (create_access_token e 0 (sub c) False))]\<rparr>,
         s\<lparr>BLOCKLIST := insert (jti c) (BLOCKLIST s)\<rparr>)"
    by (simp add: refresh_result)
  show "sub (payload (create_access_token e 0 (sub c) False)) = sub c"
    and "\<not> fresh (payload (create_access_token e 0 (sub c) False))"
    and "token_type (payload (create_access_token e 0 (sub c) False)) = Access"
    by (simp_all add: access_token_payload)
  fix rs and e' :: env
  assume d: "decode_token (now e') tok = Inr c"
  let ?later = "run rs (snd (dispatch e (POST_refresh (Bearer tok)) s))"
  from a have "jwt_required True e' (Bearer tok) ?later = Inl RevokedTokenError"
    by (intro replay_revoked[OF d]) (simp_all add: out)
  then show "fst (dispatch e' (POST_refresh (Bearer tok)) ?later) =
              \<lparr>status = 401,
               body = [(''description'', JStr ''The token has been revoked.''),
                       (''error'', JStr ''token_revoked'')]\<rparr>"
    by (simp add: refresh_result revoked_token_callback_def)
qed

theorem refresh_single_use_witness:
  "status (fst (dispatch sample_env (POST_refresh (Bearer alice_access)) alice_state)) = 401
   \<and> fst (dispatch sample_env (POST_refresh (Bearer alice_refresh)) alice_state) =
        \<lparr>status = 200,
         body = [(''access_token'',
                  JTok (Jws ''jose'' \<lparr>fresh = False, iat = 1000, jti = ''uuid-a'',
                          token_type = Access, sub = 1, nbf = 1000, exp = 1900\<rparr>))]\<rparr>
   \<and> BLOCKLIST (snd (dispatch sample_env (POST_refresh (Bearer alice_refresh)) alice_state))
       = {''uuid-b''}
   \<and> error_code (fst (dispatch sample_env (POST_refresh (Bearer alice_refresh))
         (run [] (snd (dispatch sample_env (POST_refresh (Bearer alice_refresh)) alice_state)))))
       = Some (JStr ''token_revoked'')"
proof -
  have va: "decode_token (now sample_env) alice_access = Inr (payload alice_access)
      \<and> token_type (payload alice_access) = Access"
    by (simp add: alice_access_decodes alice_access_payload)
  have vr: "decode_token (now sample_env) alice_refresh = Inr (payload alice_refresh)
      \<and> token_type (payload alice_refresh) = Refresh
      \<and> jti (payload alice_refresh) \<notin> BLOCKLIST alice_state"
    by (simp add: alice_refresh_decodes alice_refresh_payload alice_state_def)
  from refresh_single_use[of sample_env alice_access "payload alice_access" alice_state] va
  have 1: "status (fst (dispatch sample_env (POST_refresh (Bearer alice_access)) alice_state)) = 401"
    by blast
  from refresh_single_use[of sample_env alice_refresh "payload alice_refresh" alice_state] vr
  have 2: "dispatch sample_env (POST_refresh (Bearer alice_refresh)) alice_state =
        (\<lparr>status = 200,
          body = [(''access_token'',
                   JTok (create_access_token sample_env 0 (sub (payload alice_refresh)) False))]\<rparr>,
         alice_state\<lparr>BLOCKLIST := insert (jti (payload alice_refresh)) (BLOCKLIST alice_state)\<rparr>)"
    and 3: "fst (dispatch sample_env (POST_refresh (Bearer alice_refresh))
                   (run [] (snd (dispatch sample_env (POST_refresh (Bearer alice_refresh))
                      alice_state)))) =
              \<lparr>status = 401,
               body = [(''description'', JStr ''The token has been revoked.''),
                       (''error'', JStr ''token_revoked'')]\<rparr>"
    by blast+
  have tok: "create_access_token sample_env 0 1 False =
      Jws ''jose'' \<lparr>fresh = False, iat = 1000, jti = ''uuid-a'',
                          token_type = Access, sub = 1, nbf = 1000, exp = 1900\<rparr>"
    by (simp add: create_access_token_def encode_jwt_def sample_env_def JWT_SECRET_KEY_def
        JWT_ACCESS_TOKEN_EXPIRES_def)
  have empty: "BLOCKLIST alice_state = {}"
    by (simp add: alice_state_def)
  show ?thesis
    using 3 by (simp add: 1 2 tok error_code_def alice_refresh_payload empty)
qed

text \<open>
  Claim C7. The registry only grows: after one request, and after any sequence of
  requests, it contains what it contained. A request either leaves it as it was or is
  a Logout or a Refresh carrying a bearer token, and then the registry has gained that
  token's \<open>jti\<close> and nothing else. Adding an identifier inserts it; adding one that is
  present, or adding one twice, leaves the state as it was, and \<open>add\<close> has no way to
  fail.
\<close>

theorem blocklist_grows_monotonically:
  "BLOCKLIST s \<subseteq> BLOCKLIST (snd (dispatch e r s))
   \<and> BLOCKLIST s \<subseteq> BLOCKLIST (run rs s)
   \<and> (BLOCKLIST (snd (dispatch e r s)) = BLOCKLIST s
       \<or> (\<exists>tok. (r = POST_logout (Bearer tok) \<or> r = POST_refresh (Bearer tok))
             \<and> BLOCKLIST (snd (dispatch e r s)) = insert (jti (payload tok)) (BLOCKLIST s)))
   \<and> BLOCKLIST (BLOCKLIST_add j s) = insert j (BLOCKLIST s)
   \<and> (j \<in> BLOCKLIST s \<longrightarrow> BLOCKLIST_add j s = s)
   \<and> BLOCKLIST_add j (BLOCKLIST_add j s) = BLOCKLIST_add j s"
proof (intro conjI impI)
  show "BLOCKLIST s \<subseteq> BLOCKLIST (snd (dispatch e r s))"
    by (rule dispatch_BLOCKLIST_mono)
  show "BLOCKLIST s \<subseteq> BLOCKLIST (run rs s)"
    by (rule run_BLOCKLIST_mono)
  show "BLOCKLIST (snd (dispatch e r s)) = BLOCKLIST s
       \<or> (\<exists>tok. (r = POST_logout (Bearer tok) \<or> r = POST_refresh (Bearer tok))
             \<and> BLOCKLIST (snd (dispatch e r s)) = insert (jti (payload tok)) (BLOCKLIST s))"
    by (rule dispatch_BLOCKLIST_cases)
  show "BLOCKLIST (BLOCKLIST_add j s) = insert j (BLOCKLIST s)"
    by (simp add: BLOCKLIST_add_def)
  show "BLOCKLIST_add j (BLOCKLIST_add j s) = BLOCKLIST_add j s"
    by (simp add: BLOCKLIST_add_def)
  assume "j \<in> BLOCKLIST s"
  then show "BLOCKLIST_add j s = s"
    by (simp add: BLOCKLIST_add_def insert_absorb)
qed

theorem blocklist_grows_monotonically_witness:
  "BLOCKLIST (BLOCKLIST_add ''uuid-a'' alice_state)
     \<subseteq> BLOCKLIST (snd (dispatch sample_env (DELETE_user 1) (BLOCKLIST_add ''uuid-a'' alice_state)))
   \<and> BLOCKLIST_add ''uuid-a'' (BLOCKLIST_add ''uuid-a'' alice_state)
       = BLOCKLIST_add ''uuid-a'' alice_state
   \<and> BLOCKLIST (BLOCKLIST_add ''uuid-a'' alice_state) = {''uuid-a''}"
proof -
  have present: "''uuid-a'' \<in> BLOCKLIST (BLOCKLIST_add ''uuid-a'' alice_state)"
    by (simp add: BLOCKLIST_add_def)
  from blocklist_grows_monotonically[of "BLOCKLIST_add ''uuid-a'' alice_state" sample_env
      "DELETE_user 1" "[]" "''uuid-a''"] present
  have "BLOCKLIST (BLOCKLIST_add ''uuid-a'' alice_state)
     \<subseteq> BLOCKLIST (snd (dispatch sample_env (DELETE_user 1) (BLOCKLIST_add ''uuid-a'' alice_state)))"
    and "BLOCKLIST_add ''uuid-a'' (BLOCKLIST_add ''uuid-a'' alice_state)
       = BLOCKLIST_add ''uuid-a'' alice_state"
    by blast+
  then show ?thesis
    by (simp add: BLOCKLIST_add_def alice_state_def)
qed

text \<open>
  Claim C10. Deleting a user leaves the registry as it was. The blocklist loader and
  the check \<open>jwt_required\<close> makes give the same answer after the deletion as before,
  for every token and either kind of route, and so Logout and Refresh answer a request
  after the deletion as they would have before: they read the token's claims and the
  registry, and no state of the user store changes their answer.
\<close>

theorem delete_user_keeps_tokens_valid:
  "BLOCKLIST (snd (dispatch e (DELETE_user ident) s)) = BLOCKLIST s
   \<and> check_if_token_in_blocklist (snd (dispatch e (DELETE_user ident) s)) c
       = check_if_token_in_blocklist s c
   \<and> jwt_required refresh e' a (snd (dispatch e (DELETE_user ident) s))
       = jwt_required refresh e' a s
   \<and> fst (dispatch e' (POST_logout a) (snd (dispatch e (DELETE_user ident) s)))
       = fst (dispatch e' (POST_logout a) s)
   \<and> fst (dispatch e' (POST_refresh a) (snd (dispatch e (DELETE_user ident) s)))
       = fst (dispatch e' (POST_refresh a) s)
   \<and> jwt_required refresh e' a (s\<lparr>db := d\<rparr>) = jwt_required refresh e' a s"
proof -
  obtain d' where d': "snd (dispatch e (DELETE_user ident) s) = s\<lparr>db := d'\<rparr>"
    using delete_state by blast
  have j: "jwt_required r e' a (s\<lparr>db := d'\<rparr>) = jwt_required r e' a s" for r
    by (rule jwt_required_db)
  have "fst (dispatch e' (POST_logout a) (s\<lparr>db := d'\<rparr>)) = fst (dispatch e' (POST_logout a) s)"
    by (simp add: logout_result j split: sum.splits)
  moreover
  have "fst (dispatch e' (POST_refresh a) (s\<lparr>db := d'\<rparr>)) = fst (dispatch e' (POST_refresh a) s)"
    by (simp add: refresh_result j split: sum.splits)
  ultimately show ?thesis
    by (simp add: d' j jwt_required_db check_if_token_in_blocklist_def)
qed

theorem delete_user_keeps_tokens_valid_witness:
  "users (db (snd (dispatch sample_env (DELETE_user 1) alice_state))) = []
   \<and> fst (dispatch sample_env (POST_logout (Bearer alice_access))
            (snd (dispatch sample_env (DELETE_user 1) alice_state)))
       = \<lparr>status = 200, body = [(''message'', JStr ''Successfully logged out'')]\<rparr>
   \<and> status (fst (dispatch sample_env (POST_refresh (Bearer alice_refresh))
            (snd (dispatch sample_env (DELETE_user 1) alice_state)))) = 200"
proof -
  have gone: "users (db (snd (dispatch sample_env (DELETE_user 1) alice_state))) = []"
    by (simp add: dispatch_def view_def User_delete_def query_get_or_404_def
        session_delete_commit_def alice_state_def alice_row_def)
  have a: "jwt_required False sample_env (Bearer alice_access) alice_state
             = Inr (payload alice_access)"
    by (intro jwt_required_accepts alice_access_decodes)
       (simp_all add: alice_access_payload alice_state_def)
  have r: "jwt_required True sample_env (Bearer alice_refresh) alice_state
             = Inr (payload alice_refresh)"
    by (intro jwt_required_accepts alice_refresh_decodes)
       (simp_all add: alice_refresh_payload alice_state_def)
  from delete_user_keeps_tokens_valid[of sample_env 1 alice_state _ _ sample_env
      "Bearer alice_access"]
  have "fst (dispatch sample_env (POST_logout (Bearer alice_access))
            (snd (dispatch sample_env (DELETE_user 1) alice_state)))
       = fst (dispatch sample_env (POST_logout (Bearer alice_access)) alice_state)"
    by blast
  moreover
  from delete_user_keeps_tokens_valid[of sample_env 1 alice_state _ _ sample_env
      "Bearer alice_refresh"]
  have "fst (dispatch sample_env (POST_refresh (Bearer alice_refresh))
            (snd (dispatch sample_env (DELETE_user 1) alice_state)))
       = fst (dispatch sample_env (POST_refresh (Bearer alice_refresh)) alice_state)"
    by blast
  ultimately show ?thesis
    by (simp add: gone logout_result refresh_result a r)
qed

section \<open>The migration\<close>

lemma alter_column_type_keeps:
  "column_name (alter_column_type col ty c) = column_name c"
  "autoincrement (alter_column_type col ty c) = autoincrement c"
  "nullable (alter_column_type col ty c) = nullable c"
  "column_type (alter_column_type col ty c) = (if column_name c = col then ty else column_type c)"
  by (simp_all add: alter_column_type_def)

lemma drop_table_Inr:
  assumes "drop_table name sch = Inr sch'"
  shows "sch name \<noteq> None \<and> sch' = sch(name := None)"
  using assms by (auto simp: drop_table_def split: option.splits)

lemma create_table_Inr:
  assumes "create_table name cols cons sch = Inr sch'"
  shows "sch name = None \<and> sch' = sch(name \<mapsto> \<lparr>columns = cols, constraints = cons\<rparr>)"
  using assms by (auto simp: create_table_def split: option.splits)

lemma batch_alter_column_Inr:
  assumes "batch_alter_column name col ty sch = Inr sch'"
  shows "\<exists>t. sch name = Some t \<and> col \<in> set (map column_name (columns t))
           \<and> sch' = sch(name \<mapsto> t\<lparr>columns := map (alter_column_type col ty) (columns t)\<rparr>)"
  using assms by (auto simp: batch_alter_column_def split: option.splits if_splits)

lemma upgrade_Inr:
  assumes "upgrade sch = Inr sch'"
  shows "\<exists>t. sch ''User'' \<noteq> None \<and> sch ''users'' = Some t
           \<and> ''password'' \<in> set (map column_name (columns t))
           \<and> sch' = (sch(''User'' := None))
                 (''users'' \<mapsto> t\<lparr>columns := map (alter_column_type ''password'' (VARCHAR 200))
                                               (columns t)\<rparr>)"
proof -
  from assms obtain sch1 where d: "drop_table ''User'' sch = Inr sch1"
    and a: "batch_alter_column ''users'' ''password'' (VARCHAR 200) sch1 = Inr sch'"
    by (auto simp: upgrade_def split: sum.splits)
  from drop_table_Inr[OF d] have 1: "sch ''User'' \<noteq> None" "sch1 = sch(''User'' := None)"
    by simp_all
  from batch_alter_column_Inr[OF a] obtain t where
    2: "sch1 ''users'' = Some t" "''password'' \<in> set (map column_name (columns t))"
       "sch' = sch1(''users'' \<mapsto> t\<lparr>columns := map (alter_column_type ''password'' (VARCHAR 200))
                                               (columns t)\<rparr>)"
    by blast
  from 1 2 have "sch ''users'' = Some t" by simp
  with 1 2 show ?thesis by blast
qed

lemma downgrade_Inr:
  assumes "downgrade sch = Inr sch'"
  shows "\<exists>t. sch ''User'' = None \<and> sch ''users'' = Some t
           \<and> ''password'' \<in> set (map column_name (columns t))
           \<and> sch' = (sch(''users'' \<mapsto> t\<lparr>columns := map (alter_column_type ''password'' (VARCHAR 80))
                                               (columns t)\<rparr>))
                 (''User'' \<mapsto> \<lparr>columns = legacy_User_columns,
                               constraints = legacy_User_constraints\<rparr>)"
proof -
  from assms obtain sch1 where
    a: "batch_alter_column ''users'' ''password'' (VARCHAR 80) sch = Inr sch1"
    and c: "create_table ''User'' legacy_User_columns legacy_User_constraints sch1 = Inr sch'"
    by (auto simp: downgrade_def split: sum.splits)
  from batch_alter_column_Inr[OF a] obtain t where
    1: "sch ''users'' = Some t" "''password'' \<in> set (map column_name (columns t))"
       "sch1 = sch(''users'' \<mapsto> t\<lparr>columns := map (alter_column_type ''password'' (VARCHAR 80))
                                               (columns t)\<rparr>)"
    by blast
  from create_table_Inr[OF c] have 2: "sch1 ''User'' = None"
    "sch' = sch1(''User'' \<mapsto> \<lparr>columns = legacy_User_columns,
                               constraints = legacy_User_constraints\<rparr>)"
    by simp_all
  from 1 2 have "sch ''User'' = None" by (simp split: if_splits)
  with 1 2 show ?thesis by blast
qed

lemma upgrade_succeeds:
  assumes "sch ''User'' \<noteq> None" and "sch ''users'' = Some t"
    and "''password'' \<in> set (map column_name (columns t))"
  shows "\<exists>sch'. upgrade sch = Inr sch'"
  using assms by (auto simp: upgrade_def drop_table_def batch_alter_column_def)

lemma upgrade_schema_before:
  "upgrade schema_before = Inr schema_after"
  by (auto simp: upgrade_def drop_table_def batch_alter_column_def schema_before_def
      schema_after_def users_table_80_def users_table_200_def alter_column_type_def fun_eq_iff)

lemma downgrade_schema_after:
  "downgrade schema_after = Inr schema_before"
  by (auto simp: downgrade_def create_table_def batch_alter_column_def schema_before_def
      schema_after_def users_table_80_def users_table_200_def alter_column_type_def fun_eq_iff)

text \<open>
  Claim C9, as the code has it. Where the upgrade succeeds, the legacy table \<open>User\<close>
  existed and is gone, the \<open>password\<close> column of \<open>users\<close> has type \<open>VARCHAR(200)\<close>,
  and nothing else has changed: the other columns of \<open>users\<close>, the names, nullability
  and auto-increment of all its columns, its constraints and every other table are as
  before. Where the downgrade succeeds, there was no table \<open>User\<close> and there is one
  now, with the legacy columns \<open>id\<close>, \<open>username\<close>, \<open>email\<close> and their constraints, the
  \<open>password\<close> column of \<open>users\<close> has type \<open>VARCHAR(80)\<close>, and nothing else has changed.
\<close>

theorem migration_upgrade_downgrade:
  "(upgrade sch = Inr sch' \<longrightarrow>
      sch ''User'' \<noteq> None \<and> sch' ''User'' = None
      \<and> (\<exists>t t'. sch ''users'' = Some t \<and> sch' ''users'' = Some t'
            \<and> constraints t' = constraints t
            \<and> map column_name (columns t') = map column_name (columns t)
            \<and> map autoincrement (columns t') = map autoincrement (columns t)
            \<and> map nullable (columns t') = map nullable (columns t)
            \<and> map column_type (columns t') =
                map (\<lambda>c. if column_name c = ''password'' then VARCHAR 200 else column_type c)
                  (columns t))
      \<and> (\<forall>name. name \<noteq> ''User'' \<and> name \<noteq> ''users'' \<longrightarrow> sch' name = sch name))
   \<and> (downgrade sch = Inr sch' \<longrightarrow>
      sch ''User'' = None
      \<and> sch' ''User'' = Some \<lparr>columns = legacy_User_columns, constraints = legacy_User_constraints\<rparr>
      \<and> (\<exists>t t'. sch ''users'' = Some t \<and> sch' ''users'' = Some t'
            \<and> constraints t' = constraints t
            \<and> map column_name (columns t') = map column_name (columns t)
            \<and> map autoincrement (columns t') = map autoincrement (columns t)
            \<and> map nullable (columns t') = map nullable (columns t)
            \<and> map column_type (columns t') =
                map (\<lambda>c. if column_name c = ''password'' then VARCHAR 80 else column_type c)
                  (columns t))
      \<and> (\<forall>name. name \<noteq> ''User'' \<and> name \<noteq> ''users'' \<longrightarrow> sch' name = sch name))"
proof (intro conjI impI)
  assume "upgrade sch = Inr sch'"
  from upgrade_Inr[OF this] obtain t where u: "sch ''User'' \<noteq> None" "sch ''users'' = Some t"
    "sch' = (sch(''User'' := None))
                 (''users'' \<mapsto> t\<lparr>columns := map (alter_column_type ''password'' (VARCHAR 200))
                                               (columns t)\<rparr>)"
    by blast
  from u show "sch ''User'' \<noteq> None" by simp
  from u show "sch' ''User'' = None" by simp
  from u show "\<forall>name. name \<noteq> ''User'' \<and> name \<noteq> ''users'' \<longrightarrow> sch' name = sch name" by simp
  let ?t' = "t\<lparr>columns := map (alter_column_type ''password'' (VARCHAR 200)) (columns t)\<rparr>"
  have "sch ''users'' = Some t \<and> sch' ''users'' = Some ?t'
            \<and> constraints ?t' = constraints t
            \<and> map column_name (columns ?t') = map column_name (columns t)
            \<and> map autoincrement (columns ?t') = map autoincrement (columns t)
            \<and> map nullable (columns ?t') = map nullable (columns t)
            \<and> map column_type (columns ?t') =
                map (\<lambda>c. if column_name c = ''password'' then VARCHAR 200 else column_type c)
                  (columns t)"
    using u by (simp add: alter_column_type_keeps comp_def)
  then show "\<exists>t t'. sch ''users'' = Some t \<and> sch' ''users'' = Some t'
            \<and> constraints t' = constraints t
            \<and> map column_name (columns t') = map column_name (columns t)
            \<and> map autoincrement (columns t') = map autoincrement (columns t)
            \<and> map nullable (columns t') = map nullable (columns t)
            \<and> map column_type (columns t') =
                map (\<lambda>c. if column_name c = ''password'' then VARCHAR 200 else column_type c)
                  (columns t)"
    by blast
next
  assume "downgrade sch = Inr sch'"
  from downgrade_Inr[OF this] obtain t where u: "sch ''User'' = None" "sch ''users'' = Some t"
    "sch' = (sch(''users'' \<mapsto> t\<lparr>columns := map (alter_column_type ''password'' (VARCHAR 80))
                                               (columns t)\<rparr>))
                 (''User'' \<mapsto> \<lparr>columns = legacy_User_columns,
                               constraints = legacy_User_constraints\<rparr>)"
    by blast
  from u show "sch ''User'' = None" by simp
  from u show "sch' ''User'' =
      Some \<lparr>columns = legacy_User_columns, constraints = legacy_User_constraints\<rparr>"
    by simp
  from u show "\<forall>name. name \<noteq> ''User'' \<and> name \<noteq> ''users'' \<longrightarrow> sch' name = sch name" by simp
  let ?t' = "t\<lparr>columns := map (alter_column_type ''password'' (VARCHAR 80)) (columns t)\<rparr>"
  have "sch ''users'' = Some t \<and> sch' ''users'' = Some ?t'
            \<and> constraints ?t' = constraints t
            \<and> map column_name (columns ?t') = map column_name (columns t)
            \<and> map autoincrement (columns ?t') = map autoincrement (columns t)
            \<and> map nullable (columns ?t') = map nullable (columns t)
            \<and> map column_type (columns ?t') =
                map (\<lambda>c. if column_name c = ''password'' then VARCHAR 80 else column_type c)
                  (columns t)"
    using u by (simp add: alter_column_type_keeps comp_def)
  then show "\<exists>t t'. sch ''users'' = Some t \<and> sch' ''users'' = Some t'
            \<and> constraints t' = constraints t
            \<and> map column_name (columns t') = map column_name (columns t)
            \<and> map autoincrement (columns t') = map autoincrement (columns t)
            \<and> map nullable (columns t') = map nullable (columns t)
            \<and> map column_type (columns t') =
                map (\<lambda>c. if column_name c = ''password'' then VARCHAR 80 else column_type c)
                  (columns t)"
    by blast
qed

theorem migration_upgrade_downgrade_witness:
  "upgrade schema_before = Inr schema_after
   \<and> schema_before ''User'' \<noteq> None \<and> schema_after ''User'' = None
   \<and> schema_after ''users'' = Some users_table_200
   \<and> downgrade schema_after = Inr schema_before
   \<and> schema_before ''User'' =
       Some \<lparr>columns = legacy_User_columns, constraints = legacy_User_constraints\<rparr>"
  using migration_upgrade_downgrade[of schema_before schema_after]
    migration_upgrade_downgrade[of schema_after schema_before]
    upgrade_schema_before downgrade_schema_after
  by (simp add: schema_after_def)

text \<open>
  The upgrade does change something else in the schema: on the schema it was generated
  against, the table \<open>User\<close> is there before and not after (line 21,
  \<open>op.drop_table('User')\<close>).
\<close>

theorem upgrade_drops_legacy_table_counterexample:
  "upgrade schema_before = Inr schema_after
   \<and> schema_before ''User'' =
       Some \<lparr>columns = legacy_User_columns, constraints = legacy_User_constraints\<rparr>
   \<and> schema_after ''User'' = None"
  by (simp add: upgrade_schema_before) (simp add: schema_before_def schema_after_def)

section \<open>Usernames stay unique\<close>

text \<open>
  The uniqueness the first part of claim C1 rests on holds in every state the process
  can reach: it holds at start, and every request keeps it.
\<close>

lemma logout_refresh_db:
  "db (snd (dispatch e (POST_logout a) s)) = db s"
  "db (snd (dispatch e (POST_refresh a) s)) = db s"
  by (simp_all add: logout_result refresh_result split: sum.splits)

lemma login_get_state:
  "snd (dispatch e (POST_login ud) s) = s"
  "snd (dispatch e (GET_user i) s) = s"
  by (simp_all add: dispatch_def view_def UserLogin_post_def User_get_def
      split: option.splits bool.splits sum.splits)

lemma register_distinct:
  assumes "distinct (map username (users (db s)))"
  shows "distinct (map username (users (db (snd (dispatch e (POST_register ud) s)))))"
proof (cases "data_username ud \<in> set (map username (users (db s)))")
  case True
  with assms show ?thesis by (simp add: register_taken)
next
  case False
  with assms show ?thesis
    by (auto simp: register_fresh UserRegister_post_insert_def session_add_commit_def)
qed

lemma delete_distinct:
  assumes "distinct (map username (users (db s)))"
  shows "distinct (map username (users (db (snd (dispatch e (DELETE_user i) s)))))"
  using assms
  by (auto simp: dispatch_def view_def User_delete_def session_delete_commit_def
      distinct_map_filter split: sum.splits)

lemma dispatch_distinct:
  assumes "distinct (map username (users (db s)))"
  shows "distinct (map username (users (db (snd (dispatch e r s)))))"
proof (cases r)
  case (POST_register ud)
  with assms show ?thesis by (simp add: register_distinct)
next
  case (POST_login ud)
  with assms show ?thesis by (simp add: login_get_state)
next
  case (POST_logout a)
  with assms show ?thesis by (simp add: logout_refresh_db)
next
  case (GET_user i)
  with assms show ?thesis by (simp add: login_get_state)
next
  case (DELETE_user i)
  with assms show ?thesis by (simp add: delete_distinct)
next
  case (POST_refresh a)
  with assms show ?thesis by (simp add: logout_refresh_db)
qed

lemma run_distinct:
  assumes "distinct (map username (users (db s)))"
  shows "distinct (map username (users (db (run rs s))))"
  using assms
proof (induction rs arbitrary: s)
  case Nil
  then show ?case by simp
next
  case (Cons x rs)
  obtain e r where x: "x = (e, r)" by (cases x)
  from Cons.prems have "distinct (map username (users (db (snd (dispatch e r s)))))"
    by (rule dispatch_distinct)
  then show ?case by (simp add: x Cons.IH)
qed

lemma reachable_usernames_distinct:
  "distinct (map username (users (db (run rs initial_state))))"
  by (rule run_distinct) (simp add: initial_state_def)

end
